theory Spec2Isabelle
  imports Main "HOL-Library.Code_Target_Numeral"
begin

section \<open>Python values used by the fetcher\<close>

text \<open>
  Strings are byte strings holding UTF-8 text. The string operations of the program
  (\<open>strip\<close>, \<open>upper\<close>, \<open>split\<close>, \<open>replace\<close>, \<open>in\<close>, \<open>float\<close>) are modelled on
  the ASCII range, where one byte is one character; the four non-ASCII currency symbols
  occur only as constants and are written as their UTF-8 bytes.
\<close>

datatype py_error = KeyError | AttributeError | TypeError | ValueError | EOFError

definition bind_err :: "py_error + 'a \<Rightarrow> ('a \<Rightarrow> py_error + 'b) \<Rightarrow> py_error + 'b" where
  "bind_err r f = (case r of Inl e \<Rightarrow> Inl e | Inr v \<Rightarrow> f v)"

subsection \<open>String operations\<close>

text \<open>The ASCII characters for which \<open>str.isspace\<close> holds; \<open>str.strip()\<close> removes them.\<close>

definition py_whitespace :: "char list" where
  "py_whitespace =
     [CHR 0x09, CHR 0x0A, CHR 0x0B, CHR 0x0C, CHR 0x0D,
      CHR 0x1C, CHR 0x1D, CHR 0x1E, CHR 0x1F, CHR '' '']"

definition py_isspace :: "char \<Rightarrow> bool" where
  "py_isspace c = (c \<in> set py_whitespace)"

definition py_strip :: "string \<Rightarrow> string" where
  "py_strip s = rev (dropWhile py_isspace (rev (dropWhile py_isspace s)))"

definition upper_char :: "char \<Rightarrow> char" where
  "upper_char c =
     (case map_of (zip ''abcdefghijklmnopqrstuvwxyz'' ''ABCDEFGHIJKLMNOPQRSTUVWXYZ'') c of
        Some u \<Rightarrow> u
      | None \<Rightarrow> c)"

definition py_upper :: "string \<Rightarrow> string" where
  "py_upper s = map upper_char s"

text \<open>\<open>s.split(sep)\<close> for a separator of one character: \<open>''''.split('','')\<close> is \<open>['''']\<close>.\<close>

fun py_split :: "char \<Rightarrow> string \<Rightarrow> string list" where
  "py_split sep [] = [[]]"
| "py_split sep (c # cs) =
     (if c = sep then [] # py_split sep cs
      else (case py_split sep cs of [] \<Rightarrow> [[c]] | w # ws \<Rightarrow> (c # w) # ws))"

text \<open>\<open>s.replace(c, "")\<close> for one character \<open>c\<close>.\<close>

definition py_remove_char :: "char \<Rightarrow> string \<Rightarrow> string" where
  "py_remove_char c s = filter (\<lambda>x. x \<noteq> c) s"

text \<open>\<open>sub in s\<close> on strings: \<open>sub\<close> occurs in \<open>s\<close> as a contiguous run.\<close>

fun startswith :: "string \<Rightarrow> string \<Rightarrow> bool" where
  "startswith s [] = True"
| "startswith [] (p # ps) = False"
| "startswith (c # cs) (p # ps) = (c = p \<and> startswith cs ps)"

fun py_in :: "string \<Rightarrow> string \<Rightarrow> bool" where
  "py_in sub [] = (sub = [])"
| "py_in sub (c # cs) = (startswith (c # cs) sub \<or> py_in sub cs)"

definition digit_chars :: string where
  "digit_chars = ''0123456789''"

definition is_digit :: "char \<Rightarrow> bool" where
  "is_digit c = (c \<in> set digit_chars)"

definition digit_val :: "char \<Rightarrow> nat" where
  "digit_val c = (case map_of (zip digit_chars [0 ..< 10]) c of Some v \<Rightarrow> v | None \<Rightarrow> 0)"

definition nat_of_digits :: "string \<Rightarrow> nat" where
  "nat_of_digits ds = foldl (\<lambda>acc c. 10 * acc + digit_val c) 0 ds"

fun digits_of_nat :: "nat \<Rightarrow> string" where
  "digits_of_nat n =
     (if n < 10 then [digit_chars ! n] else digits_of_nat (n div 10) @ [digit_chars ! (n mod 10)])"

declare digits_of_nat.simps [simp del]

subsection \<open>Floats\<close>

text \<open>
  A Python float is an IEEE binary64 value. \<open>Finite neg m e\<close> is the number
  \<open>(-1)\<^bsup>neg\<^esup> \<sqdot> m \<sqdot> 2\<^bsup>e\<^esup>\<close> with \<open>m < 2\<^bsup>53\<^esup>\<close> and
  \<open>-1074 \<le> e \<le> 971\<close>, where \<open>2\<^bsup>52\<^esup> \<le> m\<close> unless \<open>e = -1074\<close> (zero and
  the subnormal numbers). All arithmetic on floats is exact integer arithmetic on this
  representation.
\<close>

datatype pyfloat = Finite bool nat int | Infinity bool | NaN

fun bit_length :: "nat \<Rightarrow> nat" where
  "bit_length n = (if n = 0 then 0 else Suc (bit_length (n div 2)))"

declare bit_length.simps [simp del]

text \<open>The integer nearest to \<open>n / d\<close>, a tie going to the even one.\<close>

definition round_half_even :: "nat \<Rightarrow> nat \<Rightarrow> nat" where
  "round_half_even n d =
     (let q = n div d; r = n mod d
      in if 2 * r < d then q
         else if d < 2 * r then q + 1
         else if even q then q else q + 1)"

text \<open>\<open>scaled n d e\<close> is the fraction \<open>n / (d \<sqdot> 2\<^bsup>e\<^esup>)\<close> as numerator and denominator.\<close>

definition scaled :: "nat \<Rightarrow> nat \<Rightarrow> int \<Rightarrow> nat \<times> nat" where
  "scaled n d e = (if 0 \<le> e then (n, d * 2 ^ nat e) else (n * 2 ^ nat (- e), d))"

text \<open>
  The binary64 value nearest to \<open>\<plusminus> n / d\<close> (round to nearest, ties to even), which is
  what the conversion from a decimal string computes. A value past the largest finite
  float becomes an infinity.
\<close>

definition to_double :: "bool \<Rightarrow> nat \<Rightarrow> nat \<Rightarrow> pyfloat" where
  "to_double neg n d =
     (if n = 0 then Finite neg 0 (- 1074)
      else
        (let k = int (bit_length n) - int (bit_length d);
             (n1, d1) = scaled n d (k - 52);
             e = max (if 2 ^ 52 * d1 \<le> n1 then k - 52 else k - 53) (- 1074);
             (n2, d2) = scaled n d e;
             m = round_half_even n2 d2
         in if m = 2 ^ 53 then (if 971 \<le> e then Infinity neg else Finite neg (2 ^ 52) (e + 1))
            else if 971 < e then Infinity neg
            else Finite neg m e))"

text \<open>
  \<open>float(s)\<close> on a string. Surrounding white space (the C \<open>isspace\<close> set) is dropped; an
  underscore is accepted between two digits only; then the text is a decimal number
  (sign, digits with an optional point, optional exponent) or \<open>inf\<close>, \<open>infinity\<close> or
  \<open>nan\<close> in any case with an optional sign. \<open>None\<close> stands for \<open>ValueError\<close>.
\<close>

definition c_whitespace :: "char list" where
  "c_whitespace = [CHR 0x09, CHR 0x0A, CHR 0x0B, CHR 0x0C, CHR 0x0D, CHR '' '']"

definition c_strip :: "string \<Rightarrow> string" where
  "c_strip s =
     rev (dropWhile (\<lambda>c. c \<in> set c_whitespace) (rev (dropWhile (\<lambda>c. c \<in> set c_whitespace) s)))"

fun strip_underscores :: "char \<Rightarrow> string \<Rightarrow> string option" where
  "strip_underscores prev [] = (if prev = CHR ''_'' then None else Some [])"
| "strip_underscores prev (c # cs) =
     (if c = CHR ''_'' then (if is_digit prev then strip_underscores c cs else None)
      else if prev = CHR ''_'' \<and> \<not> is_digit c then None
      else map_option (Cons c) (strip_underscores c cs))"

fun parse_sign :: "string \<Rightarrow> bool \<times> string" where
  "parse_sign [] = (False, [])"
| "parse_sign (c # cs) =
     (if c = CHR ''-'' then (True, cs) else if c = CHR ''+'' then (False, cs) else (False, c # cs))"

definition parse_exponent :: "string \<Rightarrow> int option" where
  "parse_exponent s =
     (case s of
        [] \<Rightarrow> Some 0
      | c # t \<Rightarrow>
          if c = CHR ''e'' \<or> c = CHR ''E'' then
            (let (eneg, ds) = parse_sign t
             in if ds \<noteq> [] \<and> list_all is_digit ds
                then Some (if eneg then - int (nat_of_digits ds) else int (nat_of_digits ds))
                else None)
          else None)"

text \<open>The sign, the digits \<open>ds\<close> and the exponent \<open>x\<close> of a decimal: its value is \<open>ds \<sqdot> 10\<^bsup>x\<^esup>\<close>.\<close>

definition parse_decimal :: "string \<Rightarrow> (bool \<times> nat \<times> int) option" where
  "parse_decimal s =
     (let (neg, s1) = parse_sign s;
          ip = takeWhile is_digit s1;
          r1 = dropWhile is_digit s1;
          (fp, r2) = (case r1 of
                        [] \<Rightarrow> ([], [])
                      | c # t \<Rightarrow> if c = CHR ''.'' then (takeWhile is_digit t, dropWhile is_digit t)
                                 else ([], r1))
      in if ip = [] \<and> fp = [] then None
         else map_option (\<lambda>x. (neg, nat_of_digits (ip @ fp), x - int (length fp))) (parse_exponent r2))"

definition lower_char :: "char \<Rightarrow> char" where
  "lower_char c =
     (case map_of (zip ''ABCDEFGHIJKLMNOPQRSTUVWXYZ'' ''abcdefghijklmnopqrstuvwxyz'') c of
        Some l \<Rightarrow> l
      | None \<Rightarrow> c)"

definition parse_inf_or_nan :: "string \<Rightarrow> pyfloat option" where
  "parse_inf_or_nan s =
     (let (neg, s1) = parse_sign s; w = map lower_char s1
      in if w = ''inf'' \<or> w = ''infinity'' then Some (Infinity neg)
         else if w = ''nan'' then Some NaN
         else None)"

definition py_float :: "string \<Rightarrow> pyfloat option" where
  "py_float s =
     (let s1 = c_strip s
      in case (if CHR ''_'' \<in> set s1 then strip_underscores (CHR 0x00) s1 else Some s1) of
           None \<Rightarrow> None
         | Some s2 \<Rightarrow>
             (case parse_decimal s2 of
                Some (neg, ds, e) \<Rightarrow>
                  Some (if 0 \<le> e then to_double neg (ds * 10 ^ nat e) 1
                        else to_double neg ds (10 ^ nat (- e)))
              | None \<Rightarrow> parse_inf_or_nan s2))"

text \<open>
  The format \<open>{x:,.2f}\<close>: the exact value rounded to two decimals (ties to even), the
  integer digits grouped in threes by commas.
\<close>

fun group_thousands :: "string \<Rightarrow> string" where
  "group_thousands ds =
     (if length ds \<le> 3 then ds
      else group_thousands (take (length ds - 3) ds) @ '','' @ drop (length ds - 3) ds)"

declare group_thousands.simps [simp del]

definition format_2f :: "pyfloat \<Rightarrow> string" where
  "format_2f x =
     (case x of
        NaN \<Rightarrow> ''nan''
      | Infinity neg \<Rightarrow> (if neg then ''-inf'' else ''inf'')
      | Finite neg m e \<Rightarrow>
          (let c = (if 0 \<le> e then m * 100 * 2 ^ nat e else round_half_even (m * 100) (2 ^ nat (- e)));
               frac = digits_of_nat (c mod 100)
           in (if neg then ''-'' else []) @ group_thousands (digits_of_nat (c div 100)) @ ''.''
              @ (if length frac < 2 then ''0'' @ frac else frac)))"

text \<open>
  \<open>repr\<close> of a float: the shortest decimal that converts back to the same float, the
  nearest to the float's value among the shortest, in positional notation when
  \<open>10\<^bsup>-4\<^esup> \<le> \<bar>x\<bar> < 10\<^bsup>16\<^esup>\<close> and in exponent notation otherwise.
\<close>

definition float_fraction :: "nat \<Rightarrow> int \<Rightarrow> nat \<times> nat" where
  "float_fraction m e = (if 0 \<le> e then (m * 2 ^ nat e, 1) else (m, 2 ^ nat (- e)))"

definition decimal_point :: "nat \<Rightarrow> nat \<Rightarrow> int" where
  "decimal_point n d =
     (if d \<le> n then int (length (digits_of_nat (n div d)))
      else 1 - int (length (digits_of_nat ((d - 1) div n))))"

definition decimal_to_double :: "nat \<Rightarrow> int \<Rightarrow> pyfloat" where
  "decimal_to_double c p =
     (if 0 \<le> p then to_double False (c * 10 ^ nat p) 1 else to_double False c (10 ^ nat (- p)))"

definition shortest_candidate :: "nat \<Rightarrow> int \<Rightarrow> nat \<Rightarrow> nat option" where
  "shortest_candidate m e k =
     (let (n, d) = float_fraction m e;
          q = int k - decimal_point n d;
          (n1, d1) = (if 0 \<le> q then (n * 10 ^ nat q, d) else (n, d * 10 ^ nat (- q)));
          lo = n1 div d1;
          hi = lo + 1;
          lo_ok = (decimal_to_double lo (- q) = Finite False m e);
          hi_ok = (decimal_to_double hi (- q) = Finite False m e)
      in if lo_ok \<and> hi_ok then Some (round_half_even n1 d1)
         else if lo_ok then Some lo
         else if hi_ok then Some hi
         else None)"

fun shortest_digits :: "nat \<Rightarrow> int \<Rightarrow> nat \<Rightarrow> nat \<Rightarrow> nat \<times> nat" where
  "shortest_digits m e k 0 = (0, k)"
| "shortest_digits m e k (Suc fuel) =
     (case shortest_candidate m e k of
        Some c \<Rightarrow> (c, k)
      | None \<Rightarrow> shortest_digits m e (Suc k) fuel)"

definition strip_trailing_zeros :: "string \<Rightarrow> string" where
  "strip_trailing_zeros ds = rev (dropWhile (\<lambda>c. c = CHR ''0'') (rev ds))"

definition repr_finite :: "nat \<Rightarrow> int \<Rightarrow> string" where
  "repr_finite m e =
     (if m = 0 then ''0.0''
      else
        (let (n, d) = float_fraction m e;
             (c, k) = shortest_digits m e 1 17;
             all_digits = digits_of_nat c;
             decpt = decimal_point n d - int k + int (length all_digits);
             ds = strip_trailing_zeros all_digits
         in if decpt \<le> - 4 \<or> 16 < decpt then
              (let x = decpt - 1; xs = digits_of_nat (nat \<bar>x\<bar>)
               in take 1 ds @ (if 1 < length ds then ''.'' @ drop 1 ds else [])
                  @ ''e'' @ (if x < 0 then ''-'' else ''+'')
                  @ (if length xs < 2 then ''0'' @ xs else xs))
            else if decpt \<le> 0 then ''0.'' @ replicate (nat (- decpt)) (CHR ''0'') @ ds
            else if int (length ds) \<le> decpt
              then ds @ replicate (nat decpt - length ds) (CHR ''0'') @ ''.0''
            else take (nat decpt) ds @ ''.'' @ drop (nat decpt) ds))"

definition float_repr :: "pyfloat \<Rightarrow> string" where
  "float_repr x =
     (case x of
        NaN \<Rightarrow> ''nan''
      | Infinity neg \<Rightarrow> (if neg then ''-inf'' else ''inf'')
      | Finite neg m e \<Rightarrow> (if neg then ''-'' else []) @ repr_finite m e)"

subsection \<open>JSON documents\<close>

text \<open>
  What \<open>response.json()\<close> returns: \<open>None\<close>, a bool, an int, a float, a str, a list or a
  dict with string keys. A dict is the list of its items in insertion order; its keys
  are distinct.
\<close>

datatype json =
    JNull
  | JBool bool
  | JInt int
  | JFloat pyfloat
  | JStr string
  | JArr "json list"
  | JObj "(string \<times> json) list"

type_synonym pydict = "(string \<times> json) list"

text \<open>Truth value of an object, as \<open>if data:\<close> tests it.\<close>

fun py_truthy :: "json \<Rightarrow> bool" where
  "py_truthy JNull = False"
| "py_truthy (JBool b) = b"
| "py_truthy (JInt i) = (i \<noteq> 0)"
| "py_truthy (JFloat (Finite neg m e)) = (m \<noteq> 0)"
| "py_truthy (JFloat (Infinity neg)) = True"
| "py_truthy (JFloat NaN) = True"
| "py_truthy (JStr s) = (s \<noteq> [])"
| "py_truthy (JArr xs) = (xs \<noteq> [])"
| "py_truthy (JObj kvs) = (kvs \<noteq> [])"

text \<open>\<open>d.get(key)\<close> on a dict, and the assignment \<open>d[key] = v\<close>.\<close>

definition dict_get :: "pydict \<Rightarrow> string \<Rightarrow> json option" where
  "dict_get d key = map_of d key"

definition dict_set :: "pydict \<Rightarrow> string \<Rightarrow> json \<Rightarrow> pydict" where
  "dict_set d key v =
     (if key \<in> fst ` set d then map (\<lambda>(k, x). if k = key then (k, v) else (k, x)) d
      else d @ [(key, v)])"

text \<open>
  \<open>obj.get(key, dflt)\<close>, \<open>obj.items()\<close> and \<open>obj[key]\<close> for a string key. Only a dict has
  \<open>get\<close> and \<open>items\<close> (\<open>AttributeError\<close> otherwise); subscripting a dict with a missing
  key is a \<open>KeyError\<close>, and subscripting any other JSON value with a string is a
  \<open>TypeError\<close>.
\<close>

definition py_get :: "json \<Rightarrow> string \<Rightarrow> json \<Rightarrow> py_error + json" where
  "py_get obj key dflt =
     (case obj of
        JObj d \<Rightarrow> Inr (case dict_get d key of Some v \<Rightarrow> v | None \<Rightarrow> dflt)
      | _ \<Rightarrow> Inl AttributeError)"

definition py_items :: "json \<Rightarrow> py_error + pydict" where
  "py_items obj = (case obj of JObj d \<Rightarrow> Inr d | _ \<Rightarrow> Inl AttributeError)"

definition py_getitem :: "json \<Rightarrow> string \<Rightarrow> py_error + json" where
  "py_getitem obj key =
     (case obj of
        JObj d \<Rightarrow> (case dict_get d key of Some v \<Rightarrow> Inr v | None \<Rightarrow> Inl KeyError)
      | _ \<Rightarrow> Inl TypeError)"

text \<open>
  A dict comprehension \<open>{k: v for item in items if cond}\<close>: the items are visited in
  order, \<open>f\<close> gives the pair to store (\<open>None\<close> when the condition rejects the item), and
  the first exception ends the comprehension.
\<close>

fun dict_comp :: "(string \<times> json \<Rightarrow> py_error + (string \<times> json) option) \<Rightarrow> pydict \<Rightarrow> pydict \<Rightarrow> py_error + pydict" where
  "dict_comp f [] acc = Inr acc"
| "dict_comp f (item # items) acc =
     (case f item of
        Inl e \<Rightarrow> Inl e
      | Inr None \<Rightarrow> dict_comp f items acc
      | Inr (Some (k, v)) \<Rightarrow> dict_comp f items (dict_set acc k v))"

text \<open>\<open>str\<close> and \<open>repr\<close> of these values.\<close>

definition hex_chars :: string where
  "hex_chars = ''0123456789abcdef''"

definition repr_char :: "char \<Rightarrow> char \<Rightarrow> string" where
  "repr_char quote c =
     (if c = quote \<or> c = CHR 0x5C then [CHR 0x5C, c]
      else if c = CHR 0x09 then [CHR 0x5C, CHR ''t'']
      else if c = CHR 0x0A then [CHR 0x5C, CHR ''n'']
      else if c = CHR 0x0D then [CHR 0x5C, CHR ''r'']
      else if (of_char c :: nat) < 32 \<or> c = CHR 0x7F
        then [CHR 0x5C, CHR ''x'', hex_chars ! (of_char c div 16), hex_chars ! (of_char c mod 16)]
      else [c])"

definition repr_str :: "string \<Rightarrow> string" where
  "repr_str s =
     (let quote = (if CHR 0x27 \<in> set s \<and> CHR 0x22 \<notin> set s then CHR 0x22 else CHR 0x27)
      in [quote] @ concat (map (repr_char quote) s) @ [quote])"

definition str_int :: "int \<Rightarrow> string" where
  "str_int i = (if i < 0 then ''-'' @ digits_of_nat (nat (- i)) else digits_of_nat (nat i))"

fun join :: "string \<Rightarrow> string list \<Rightarrow> string" where
  "join sep [] = []"
| "join sep [x] = x"
| "join sep (x # y # ys) = x @ sep @ join sep (y # ys)"

fun py_repr :: "json \<Rightarrow> string" where
  "py_repr JNull = ''None''"
| "py_repr (JBool b) = (if b then ''True'' else ''False'')"
| "py_repr (JInt i) = str_int i"
| "py_repr (JFloat x) = float_repr x"
| "py_repr (JStr s) = repr_str s"
| "py_repr (JArr xs) = ''['' @ join '', '' (map py_repr xs) @ '']''"
| "py_repr (JObj kvs) =
     ''{'' @ join '', '' (map (\<lambda>kv. repr_str (fst kv) @ '': '' @ py_repr (snd kv)) kvs) @ ''}''"

definition py_str :: "json \<Rightarrow> string" where
  "py_str v = (case v of JStr s \<Rightarrow> s | _ \<Rightarrow> py_repr v)"

section \<open>Configuration\<close>

definition DEFAULT_API :: string where
  "DEFAULT_API = ''https://api.exchangerate-api.com/v4/latest/USD''"

definition BACKUP_APIS :: "string list" where
  "BACKUP_APIS =
     [''https://api.coindesk.com/v2/bpi/currentprice.json'',
      ''https://api.coingecko.com/api/v3/simple/price?ids=bitcoin&vs_currencies=usd,eur,gbp,jpy,cny'',
      ''https://blockchain.info/ticker'',
      ''https://api.coinbase.com/v2/exchange-rates?currency=BTC'']"

text \<open>The symbols are the UTF-8 bytes of the pound, euro, yen and bitcoin signs.\<close>

definition CURRENCY_SYMBOLS :: "(string \<times> string) list" where
  "CURRENCY_SYMBOLS =
     [(''USD'', ''$''),
      (''GBP'', [CHR 0xC2, CHR 0xA3]),
      (''EUR'', [CHR 0xE2, CHR 0x82, CHR 0xAC]),
      (''JPY'', [CHR 0xC2, CHR 0xA5]),
      (''CNY'', [CHR 0xC2, CHR 0xA5]),
      (''BTC'', [CHR 0xE2, CHR 0x82, CHR 0xBF])]"

section \<open>Core functions\<close>

text \<open>
  \<^verbatim>\<open>
  def parse_response(data: dict, source: str) -> Optional[Dict[str, str]]:
      try:
          if "coindesk" in source:
              return {curr: info["rate"] for curr, info in data.get("bpi", {}).items()}
          elif "coingecko" in source:
              return {curr.upper(): str(price) for curr, price in data.get("bitcoin", {}).items()}
          elif "blockchain" in source:
              return {curr: str(info["last"]) for curr, info in data.items()}
          elif "coinbase" in source:
              return {curr: str(rate) for curr, rate in data.get("data", {}).get("rates", {}).items()
                      if curr != "BTC"}
      except (KeyError, AttributeError) as e:
          print(...)
      return None
  \<close>
  \<open>try_block\<close> is the body of the \<open>try\<close>; \<open>parse_response\<close> adds the handler, which
  catches \<open>KeyError\<close> and \<open>AttributeError\<close> and lets any other exception leave the
  function. The result \<open>Inr None\<close> is the return value \<open>None\<close>, \<open>Inr (Some d)\<close> the
  dict \<open>d\<close>, and \<open>Inl e\<close> the exception \<open>e\<close> raised to the caller.
\<close>

definition try_block :: "json \<Rightarrow> string \<Rightarrow> py_error + pydict option" where
  "try_block data source =
     (if py_in ''coindesk'' source then
        bind_err (py_get data ''bpi'' (JObj [])) (\<lambda>bpi.
        bind_err (py_items bpi) (\<lambda>items.
        bind_err (dict_comp (\<lambda>(curr, info).
                    bind_err (py_getitem info ''rate'') (\<lambda>rate. Inr (Some (curr, rate))))
                  items []) (\<lambda>d. Inr (Some d))))
      else if py_in ''coingecko'' source then
        bind_err (py_get data ''bitcoin'' (JObj [])) (\<lambda>bitcoin.
        bind_err (py_items bitcoin) (\<lambda>items.
        bind_err (dict_comp (\<lambda>(curr, price). Inr (Some (py_upper curr, JStr (py_str price))))
                  items []) (\<lambda>d. Inr (Some d))))
      else if py_in ''blockchain'' source then
        bind_err (py_items data) (\<lambda>items.
        bind_err (dict_comp (\<lambda>(curr, info).
                    bind_err (py_getitem info ''last'') (\<lambda>last. Inr (Some (curr, JStr (py_str last)))))
                  items []) (\<lambda>d. Inr (Some d)))
      else if py_in ''coinbase'' source then
        bind_err (py_get data ''data'' (JObj [])) (\<lambda>inner.
        bind_err (py_get inner ''rates'' (JObj [])) (\<lambda>rates.
        bind_err (py_items rates) (\<lambda>items.
        bind_err (dict_comp (\<lambda>(curr, rate).
                    if curr \<noteq> ''BTC'' then Inr (Some (curr, JStr (py_str rate))) else Inr None)
                  items []) (\<lambda>d. Inr (Some d)))))
      else Inr None)"

definition parse_response :: "json \<Rightarrow> string \<Rightarrow> py_error + pydict option" where
  "parse_response data source =
     (case try_block data source of
        Inl e \<Rightarrow> (if e = KeyError \<or> e = AttributeError then Inr None else Inl e)
      | Inr r \<Rightarrow> Inr r)"

section \<open>Schema tags and fixtures\<close>

text \<open>
  The schema tag of a source is the branch that the \<open>if\<close>/\<open>elif\<close> chain of
  \<open>parse_response\<close> takes for it: the first of the four substrings that occurs in the
  source decides, and a source with none of them has no tag.
\<close>

datatype schema = Coindesk | Coingecko | Blockchain | Coinbase

definition schema_tag :: "string \<Rightarrow> schema option" where
  "schema_tag source =
     (if py_in ''coindesk'' source then Some Coindesk
      else if py_in ''coingecko'' source then Some Coingecko
      else if py_in ''blockchain'' source then Some Blockchain
      else if py_in ''coinbase'' source then Some Coinbase
      else None)"

text \<open>
  A currency code is a non-empty word of ASCII letters; it is upper-case when all its
  letters are capitals. A price is a JSON number, a rate is a JSON string.
\<close>

definition uppercase_code :: "string \<Rightarrow> bool" where
  "uppercase_code s = (s \<noteq> [] \<and> list_all (\<lambda>c. c \<in> set ''ABCDEFGHIJKLMNOPQRSTUVWXYZ'') s)"

definition currency_code :: "string \<Rightarrow> bool" where
  "currency_code s =
     (s \<noteq> [] \<and>
      list_all (\<lambda>c. c \<in> set ''ABCDEFGHIJKLMNOPQRSTUVWXYZabcdefghijklmnopqrstuvwxyz'') s)"

fun is_number :: "json \<Rightarrow> bool" where
  "is_number (JInt i) = True"
| "is_number (JFloat x) = True"
| "is_number v = False"

fun is_string :: "json \<Rightarrow> bool" where
  "is_string (JStr s) = True"
| "is_string v = False"

text \<open>An object holding the field \<open>key\<close> with a value that satisfies \<open>P\<close>.\<close>

fun has_field :: "string \<Rightarrow> (json \<Rightarrow> bool) \<Rightarrow> json \<Rightarrow> bool" where
  "has_field key P (JObj d) = (case dict_get d key of Some v \<Rightarrow> P v | None \<Rightarrow> False)"
| "has_field key P v = False"

text \<open>
  A well-formed fixture of a schema is a document of the shape that the schema's
  service returns, with at least one currency:
  \<^item> coindesk: \<open>bpi\<close> is an object from upper-case codes to objects with a string \<open>rate\<close>;
  \<^item> coingecko: \<open>bitcoin\<close> is an object from codes to numbers;
  \<^item> blockchain: the document is an object from upper-case codes to objects with a
    number \<open>last\<close>;
  \<^item> coinbase: \<open>data.rates\<close> is an object from upper-case codes to strings.
\<close>

definition currency_table :: "(string \<Rightarrow> bool) \<Rightarrow> (json \<Rightarrow> bool) \<Rightarrow> json \<Rightarrow> bool" where
  "currency_table K P v =
     (case v of
        JObj d \<Rightarrow> d \<noteq> [] \<and> distinct (map fst d) \<and> list_all (\<lambda>(k, x). K k \<and> P x) d
      | _ \<Rightarrow> False)"

fun well_formed :: "schema \<Rightarrow> json \<Rightarrow> bool" where
  "well_formed Coindesk data =
     has_field ''bpi'' (currency_table uppercase_code (has_field ''rate'' is_string)) data"
| "well_formed Coingecko data =
     has_field ''bitcoin'' (currency_table currency_code is_number) data"
| "well_formed Blockchain data =
     currency_table uppercase_code (has_field ''last'' is_number) data"
| "well_formed Coinbase data =
     has_field ''data'' (has_field ''rates'' (currency_table uppercase_code is_string)) data"

text \<open>The currency codes that a document lists under \<open>data.rates\<close>.\<close>

definition rate_codes :: "json \<Rightarrow> string list" where
  "rate_codes data =
     (case data of
        JObj d \<Rightarrow>
          (case dict_get d ''data'' of
             Some (JObj inner) \<Rightarrow>
               (case dict_get inner ''rates'' of
                  Some (JObj rates) \<Rightarrow> map fst rates
                | _ \<Rightarrow> [])
           | _ \<Rightarrow> [])
      | _ \<Rightarrow> [])"

text \<open>
  \<^verbatim>\<open>
  def format_price(currency: str, price: str) -> str:
      symbol = CURRENCY_SYMBOLS.get(currency, '')
      try:
          clean_price = price.replace(",", "")
          formatted = f"{float(clean_price):,.2f}"
          return f"{symbol}{formatted}"
      except ValueError:
          return f"{symbol}{price}"
  \<close>
\<close>

definition format_price :: "string \<Rightarrow> string \<Rightarrow> string" where
  "format_price currency price =
     (let symbol = (case map_of CURRENCY_SYMBOLS currency of Some s \<Rightarrow> s | None \<Rightarrow> [])
      in case py_float (py_remove_char (CHR '','') price) of
           Some x \<Rightarrow> symbol @ format_2f x
         | None \<Rightarrow> symbol @ price)"

section \<open>User interface\<close>

text \<open>
  The console is the list of the lines still to be typed. \<open>input\<close> takes the first
  one and raises \<open>EOFError\<close> when there is none. What the program prints is not part of
  the model.

  \<^verbatim>\<open>
  def get_user_input(prompt: str, default: str = "") -> str:
      user_input = input(prompt).strip()
      return user_input if user_input else default
  \<close>
  \<open>get_user_input\<close> is the function applied to the line that \<open>input\<close> returned.
\<close>

definition get_user_input :: "string \<Rightarrow> string \<Rightarrow> string" where
  "get_user_input line dflt =
     (let user_input = py_strip line in if user_input \<noteq> [] then user_input else dflt)"

text \<open>
  \<^verbatim>\<open>
  def select_currencies(available: List[str]) -> List[str]:
      while True:
          selection = get_user_input(...).upper()
          if not selection:
              return available
          selected = [c.strip() for c in selection.split(",")]
          invalid = [c for c in selected if c not in available]
          if not invalid:
              return selected
          print(f"Invalid currencies: ...")
  \<close>
  One turn of the loop consumes one line. The result is the selection together with
  the lines left on the console.
\<close>

fun select_currencies :: "string list \<Rightarrow> string list \<Rightarrow> py_error + (string list \<times> string list)" where
  "select_currencies available [] = Inl EOFError"
| "select_currencies available (line # rest) =
     (let selection = py_upper (get_user_input line [])
      in if selection = [] then Inr (available, rest)
         else
           (let selected = map py_strip (py_split (CHR '','') selection);
                invalid = filter (\<lambda>c. c \<notin> set available) selected
            in if invalid = [] then Inr (selected, rest)
               else select_currencies available rest))"

section \<open>Main execution\<close>

text \<open>
  \<^verbatim>\<open>
      api_url = get_user_input(...) or DEFAULT_API

      prices = None
      for attempt, url in enumerate([api_url] + BACKUP_APIS, 1):
          data = fetch_data(url)
          if data:
              prices = parse_response(data, url)
              if prices:
                  break

      if not prices:
          print("All API attempts failed. ...")
          return
  \<close>
  The network is the function \<open>fetch_data\<close>: \<open>fetch_data attempt url\<close> is what the call
  \<open>fetch_data(url)\<close> of the given attempt returns, \<open>None\<close> when the request failed (the
  function catches the request's exception and returns \<open>None\<close>). The loop records each
  call it makes.
\<close>

datatype call = FetchCall string | ParseCall string

text \<open>Truth value of \<open>prices\<close>, which is \<open>None\<close> or a dict, as \<open>if prices:\<close> tests it.\<close>

definition truthy_prices :: "pydict option \<Rightarrow> bool" where
  "truthy_prices prices = (case prices of None \<Rightarrow> False | Some d \<Rightarrow> d \<noteq> [])"

fun main_loop :: "(nat \<Rightarrow> string \<Rightarrow> json option) \<Rightarrow> nat \<Rightarrow> string list \<Rightarrow> pydict option
    \<Rightarrow> call list \<times> (py_error + pydict option)" where
  "main_loop fetch_data attempt [] prices = ([], Inr prices)"
| "main_loop fetch_data attempt (url # urls) prices =
     (case fetch_data attempt url of
        None \<Rightarrow>
          (let (calls, r) = main_loop fetch_data (attempt + 1) urls prices
           in (FetchCall url # calls, r))
      | Some data \<Rightarrow>
          if py_truthy data then
            (case parse_response data url of
               Inl e \<Rightarrow> ([FetchCall url, ParseCall url], Inl e)
             | Inr parsed \<Rightarrow>
                 if truthy_prices parsed then ([FetchCall url, ParseCall url], Inr parsed)
                 else
                   (let (calls, r) = main_loop fetch_data (attempt + 1) urls parsed
                    in (FetchCall url # ParseCall url # calls, r)))
          else
            (let (calls, r) = main_loop fetch_data (attempt + 1) urls prices
             in (FetchCall url # calls, r)))"

text \<open>
  The outcome of the fallback over a candidate list: the prices, or the report that
  every attempt failed, after which \<open>main\<close> returns normally. \<open>Inl e\<close> is an exception
  that leaves \<open>main\<close>.
\<close>

datatype outcome = AllFailed | Prices pydict

text \<open>The test \<open>if not prices\<close> after the loop.\<close>

definition check_prices :: "py_error + pydict option \<Rightarrow> py_error + outcome" where
  "check_prices r =
     (case r of
        Inl e \<Rightarrow> Inl e
      | Inr prices \<Rightarrow>
          (case prices of
             None \<Rightarrow> Inr AllFailed
           | Some d \<Rightarrow> if d = [] then Inr AllFailed else Inr (Prices d)))"

definition fetch_prices :: "(nat \<Rightarrow> string \<Rightarrow> json option) \<Rightarrow> string list
    \<Rightarrow> call list \<times> (py_error + outcome)" where
  "fetch_prices fetch_data candidates =
     (let (calls, r) = main_loop fetch_data 1 candidates None
      in (calls, check_prices r))"

text \<open>\<open>main\<close> up to the prices, for the line typed at the URL prompt.\<close>

definition main_prices :: "(nat \<Rightarrow> string \<Rightarrow> json option) \<Rightarrow> string
    \<Rightarrow> call list \<times> (py_error + outcome)" where
  "main_prices fetch_data line =
     (let typed = get_user_input line [];
          api_url = (if typed \<noteq> [] then typed else DEFAULT_API)
      in fetch_prices fetch_data (api_url # BACKUP_APIS))"

text \<open>The sources that were fetched and those whose document was parsed, in order.\<close>

fun fetched :: "call list \<Rightarrow> string list" where
  "fetched [] = []"
| "fetched (FetchCall url # calls) = url # fetched calls"
| "fetched (ParseCall url # calls) = fetched calls"

fun parsed :: "call list \<Rightarrow> string list" where
  "parsed [] = []"
| "parsed (FetchCall url # calls) = parsed calls"
| "parsed (ParseCall url # calls) = url # parsed calls"

text \<open>
  The two outcomes of one candidate in the words of the specification. A candidate
  fails when its fetch fails or its normalization yields \<open>None\<close> or an empty mapping;
  it succeeds with \<open>m\<close> when its fetch returns a document whose normalization is the
  non-empty mapping \<open>m\<close>. A candidate whose normalization raises does neither.
\<close>

definition candidate_fails :: "(nat \<Rightarrow> string \<Rightarrow> json option) \<Rightarrow> nat \<Rightarrow> string \<Rightarrow> bool" where
  "candidate_fails fetch_data attempt url =
     (case fetch_data attempt url of
        None \<Rightarrow> True
      | Some data \<Rightarrow>
          parse_response data url = Inr None \<or> parse_response data url = Inr (Some []))"

definition candidate_succeeds :: "(nat \<Rightarrow> string \<Rightarrow> json option) \<Rightarrow> nat \<Rightarrow> string \<Rightarrow> pydict \<Rightarrow> bool" where
  "candidate_succeeds fetch_data attempt url m =
     (case fetch_data attempt url of
        None \<Rightarrow> False
      | Some data \<Rightarrow> parse_response data url = Inr (Some m) \<and> m \<noteq> [])"

section \<open>Currency selection\<close>

declare select_currencies.simps [simp del]

lemma py_upper_Nil_iff: "py_upper s = [] \<longleftrightarrow> s = []"
  by (simp add: py_upper_def)

lemma filter_invalid_Nil_iff:
  "filter (\<lambda>c. c \<notin> set available) selected = [] \<longleftrightarrow> set selected \<subseteq> set available"
  by (auto simp: filter_empty_conv)

lemma select_currencies_blank:
  "py_strip line = [] \<Longrightarrow> select_currencies available (line # rest) = Inr (available, rest)"
  by (simp add: select_currencies.simps get_user_input_def py_upper_def)

lemma select_currencies_step:
  assumes "py_strip line \<noteq> []"
  shows "select_currencies available (line # rest) =
           (let selected = map py_strip (py_split (CHR '','') (py_upper (py_strip line)))
            in if set selected \<subseteq> set available then Inr (selected, rest)
               else select_currencies available rest)"
  using assms
  by (simp add: select_currencies.simps get_user_input_def py_upper_Nil_iff
      filter_invalid_Nil_iff Let_def)

lemma select_currencies_subset:
  "select_currencies available stdin = Inr (sel, rest) \<Longrightarrow> set sel \<subseteq> set available"
proof (induction stdin)
  case Nil
  then show ?case by (simp add: select_currencies.simps)
next
  case (Cons line more)
  show ?case
  proof (cases "py_strip line = []")
    case True
    with Cons.prems show ?thesis
      by (simp add: select_currencies_blank)
  next
    case False
    with Cons show ?thesis
      by (auto simp: select_currencies_step Let_def split: if_splits)
  qed
qed

lemma select_usd_eur:
  "select_currencies [''USD'', ''EUR'', ''GBP''] (''usd, eur'' # rest) = Inr ([''USD'', ''EUR''], rest)"
  by (simp add: select_currencies.simps get_user_input_def py_upper_def upper_char_def
      py_strip_def py_isspace_def py_whitespace_def)

text \<open>
  C9. With the currencies USD, EUR and GBP available, the line \<open>usd, eur\<close> selects
  exactly USD and EUR. For any available list: a blank line selects every available
  currency; a line in which some code, upper-cased and trimmed, is not available is
  discarded as a whole and the next line is read; and whatever selection is returned
  holds available codes only.
\<close>

theorem select_currencies_validated:
  "select_currencies [''USD'', ''EUR'', ''GBP''] (''usd, eur'' # rest) = Inr ([''USD'', ''EUR''], rest)
   \<and> (py_strip line = [] \<longrightarrow> select_currencies available (line # rest) = Inr (available, rest))
   \<and> (py_strip line \<noteq> []
        \<and> (\<exists>c \<in> set (map py_strip (py_split (CHR '','') (py_upper (py_strip line)))). c \<notin> set available)
      \<longrightarrow> select_currencies available (line # rest) = select_currencies available rest)
   \<and> (select_currencies available stdin = Inr (sel, left) \<longrightarrow> set sel \<subseteq> set available)"
proof (intro conjI impI)
  show "select_currencies [''USD'', ''EUR'', ''GBP''] (''usd, eur'' # rest) = Inr ([''USD'', ''EUR''], rest)"
    by (rule select_usd_eur)
next
  assume "py_strip line = []"
  then show "select_currencies available (line # rest) = Inr (available, rest)"
    by (rule select_currencies_blank)
next
  assume a: "py_strip line \<noteq> []
      \<and> (\<exists>c \<in> set (map py_strip (py_split (CHR '','') (py_upper (py_strip line)))). c \<notin> set available)"
  then have "\<not> set (map py_strip (py_split (CHR '','') (py_upper (py_strip line)))) \<subseteq> set available"
    by blast
  with a show "select_currencies available (line # rest) = select_currencies available rest"
    by (simp add: select_currencies_step Let_def del: set_map)
next
  assume "select_currencies available stdin = Inr (sel, left)"
  then show "set sel \<subseteq> set available"
    by (rule select_currencies_subset)
qed

theorem select_currencies_validated_witness:
  "py_strip ''  '' = []
   \<and> py_strip ''usd, xyz'' \<noteq> []
   \<and> (\<exists>c \<in> set (map py_strip (py_split (CHR '','') (py_upper (py_strip ''usd, xyz'')))).
         c \<notin> set [''USD'', ''EUR'', ''GBP''])
   \<and> select_currencies [''USD'', ''EUR'', ''GBP''] [''usd, xyz'', ''gbp''] = Inr ([''GBP''], [])
   \<and> select_currencies [''USD'', ''EUR'', ''GBP''] [''  '', ''gbp''] = Inr ([''USD'', ''EUR'', ''GBP''], [''gbp''])
   \<and> select_currencies [''USD'', ''EUR'', ''GBP''] [''usd, xyz'', ''gbp''] = select_currencies [''USD'', ''EUR'', ''GBP''] [''gbp'']
   \<and> set [''GBP''] \<subseteq> set [''USD'', ''EUR'', ''GBP'']"
  using select_currencies_validated [where line = "''usd, xyz''" and rest = "[''gbp'']"
      and available = "[''USD'', ''EUR'', ''GBP'']" and stdin = "[''usd, xyz'', ''gbp'']"
      and sel = "[''GBP'']" and left = "[]"]
    select_currencies_validated [where line = "''  ''" and rest = "[''gbp'']"
      and available = "[''USD'', ''EUR'', ''GBP'']" and stdin = "[]" and sel = "[]" and left = "[]"]
  by (simp add: select_currencies.simps get_user_input_def py_upper_def upper_char_def
      py_strip_def py_isspace_def py_whitespace_def)

section \<open>Price formatting\<close>

lemma format_usd: "format_price ''USD'' ''1234.5'' = ''$1,234.50''"
  by code_simp

lemma format_xyz: "format_price ''XYZ'' ''not-a-number'' = ''not-a-number''"
  by code_simp

lemma format_price_unparsed:
  "py_float (py_remove_char (CHR '','') price) = None \<Longrightarrow>
     format_price currency price =
       (case map_of CURRENCY_SYMBOLS currency of Some s \<Rightarrow> s | None \<Rightarrow> []) @ price"
  by (simp add: format_price_def)

text \<open>
  C8. \<open>format_price\<close> turns USD and \<open>1234.5\<close> into \<open>$1,234.50\<close> and leaves
  \<open>not-a-number\<close> for XYZ as it is. For every currency and every price that \<open>float\<close>
  rejects once the commas are removed, the result is the currency's symbol followed by
  the price unchanged, which is the price itself when the currency has no symbol.
\<close>

theorem format_price_spec:
  "format_price ''USD'' ''1234.5'' = ''$1,234.50''
   \<and> format_price ''XYZ'' ''not-a-number'' = ''not-a-number''
   \<and> (py_float (py_remove_char (CHR '','') price) = None \<longrightarrow>
        format_price currency price =
          (case map_of CURRENCY_SYMBOLS currency of Some s \<Rightarrow> s | None \<Rightarrow> []) @ price)
   \<and> (map_of CURRENCY_SYMBOLS currency = None \<and> py_float (py_remove_char (CHR '','') price) = None \<longrightarrow>
        format_price currency price = price)"
  using format_usd format_xyz by (simp add: format_price_unparsed)

theorem format_price_spec_witness:
  "map_of CURRENCY_SYMBOLS ''CHF'' = None
   \<and> py_float (py_remove_char (CHR '','') ''1,2x'') = None
   \<and> format_price ''CHF'' ''1,2x'' = ''1,2x''
   \<and> format_price ''EUR'' ''1,2x'' = [CHR 0xE2, CHR 0x82, CHR 0xAC] @ ''1,2x''"
proof -
  have h1: "map_of CURRENCY_SYMBOLS ''CHF'' = None"
    by (simp add: CURRENCY_SYMBOLS_def)
  have h2: "py_float (py_remove_char (CHR '','') ''1,2x'') = None"
    by code_simp
  have h3: "map_of CURRENCY_SYMBOLS ''EUR'' = Some [CHR 0xE2, CHR 0x82, CHR 0xAC]"
    by (simp add: CURRENCY_SYMBOLS_def)
  from format_price_spec [of "''1,2x''" "''CHF''"] h1 h2
  have a: "format_price ''CHF'' ''1,2x'' = ''1,2x''"
    by blast
  from format_price_spec [of "''1,2x''" "''EUR''"] h2 h3
  have b: "format_price ''EUR'' ''1,2x'' = [CHR 0xE2, CHR 0x82, CHR 0xAC] @ ''1,2x''"
    by simp
  from h1 h2 a b show ?thesis
    by blast
qed

section \<open>Schema dispatch\<close>

lemma parse_untagged:
  "schema_tag source = None \<Longrightarrow> parse_response data source = Inr None"
  by (simp add: schema_tag_def parse_response_def try_block_def split: if_splits)

lemma default_untagged: "schema_tag DEFAULT_API = None"
  by code_simp

lemma backup_tags:
  "map schema_tag BACKUP_APIS = [Some Coindesk, Some Coingecko, Some Blockchain, Some Coinbase]"
  by (simp add: schema_tag_def BACKUP_APIS_def)

section \<open>Dict comprehensions\<close>

lemma bind_err_simps [simp]:
  "bind_err (Inl e) f = Inl e"
  "bind_err (Inr v) f = f v"
  by (simp_all add: bind_err_def)

lemma dict_set_fresh: "k \<notin> fst ` set d \<Longrightarrow> dict_set d k v = d @ [(k, v)]"
  by (simp add: dict_set_def)

lemma dict_set_not_Nil: "dict_set d k v \<noteq> []"
  by (cases d) (auto simp: dict_set_def)

lemma dict_set_entries:
  "(a, b) \<in> set (dict_set d k v) \<Longrightarrow> (a, b) \<in> set d \<or> (a = k \<and> b = v)"
  by (auto simp: dict_set_def split: if_splits)

lemma dict_comp_entries:
  assumes "\<forall>item \<in> set items. f item = Inr None \<or> (\<exists>k v. f item = Inr (Some (k, v)) \<and> Q k v)"
    and "\<forall>(k, v) \<in> set acc. Q k v"
  shows "\<exists>m. dict_comp f items acc = Inr m \<and> (\<forall>(k, v) \<in> set m. Q k v)
           \<and> (acc \<noteq> [] \<or> (\<exists>item \<in> set items. f item \<noteq> Inr None) \<longrightarrow> m \<noteq> [])"
  using assms
proof (induction items arbitrary: acc)
  case Nil
  then show ?case by simp
next
  case (Cons item items)
  from Cons.prems(1) consider "f item = Inr None" | k v where "f item = Inr (Some (k, v))" "Q k v"
    by auto
  then show ?case
  proof cases
    case 1
    with Cons.prems have "\<forall>item \<in> set items. f item = Inr None \<or> (\<exists>k v. f item = Inr (Some (k, v)) \<and> Q k v)"
      by simp
    from Cons.IH [OF this Cons.prems(2)] 1 show ?thesis
      by auto
  next
    case 2
    have q: "\<forall>(a, b) \<in> set (dict_set acc k v). Q a b"
      using Cons.prems(2) 2(2) by (auto dest: dict_set_entries)
    from Cons.prems have "\<forall>item \<in> set items. f item = Inr None \<or> (\<exists>k v. f item = Inr (Some (k, v)) \<and> Q k v)"
      by simp
    from Cons.IH [OF this q] 2(1) show ?thesis
      by (auto simp: dict_set_not_Nil)
  qed
qed

lemma dict_comp_filter_map:
  assumes "\<forall>(k, v) \<in> set items. f (k, v) = Inr (if P k then Some (k, g v) else None)"
    and "distinct (map fst items)"
    and "fst ` set items \<inter> fst ` set acc = {}"
  shows "dict_comp f items acc =
           Inr (acc @ map (\<lambda>(k, v). (k, g v)) (filter (\<lambda>(k, v). P k) items))"
  using assms
proof (induction items arbitrary: acc)
  case Nil
  then show ?case by simp
next
  case (Cons item items)
  obtain k v where item: "item = (k, v)"
    by (cases item)
  from Cons.prems(1) have rest: "\<forall>(k, v) \<in> set items. f (k, v) = Inr (if P k then Some (k, g v) else None)"
    by simp
  from Cons.prems(2) have dist: "distinct (map fst items)" and fresh: "k \<notin> fst ` set items"
    by (auto simp: item)
  from Cons.prems(3) have kacc: "k \<notin> fst ` set acc" and disj: "fst ` set items \<inter> fst ` set acc = {}"
    by (auto simp: item)
  show ?case
  proof (cases "P k")
    case True
    have "fst ` set items \<inter> fst ` set (acc @ [(k, g v)]) = {}"
      using disj fresh by auto
    from Cons.IH [OF rest dist this] True Cons.prems(1) kacc show ?thesis
      by (simp add: item dict_set_fresh)
  next
    case False
    from Cons.IH [OF rest dist disj] False Cons.prems(1) show ?thesis
      by (simp add: item)
  qed
qed

lemma dict_comp_KeyError:
  assumes "\<forall>item \<in> set items. (\<exists>r. f item = Inr r) \<or> f item = Inl KeyError"
    and "\<exists>item \<in> set items. f item = Inl KeyError"
  shows "dict_comp f items acc = Inl KeyError"
  using assms
proof (induction items arbitrary: acc)
  case Nil
  then show ?case by simp
next
  case (Cons item items)
  show ?case
  proof (cases "f item")
    case (Inl e)
    with Cons.prems(1) show ?thesis by auto
  next
    case (Inr r)
    with Cons.prems have "\<exists>item \<in> set items. f item = Inl KeyError"
      by auto
    moreover from Cons.prems have "\<forall>item \<in> set items. (\<exists>r. f item = Inr r) \<or> f item = Inl KeyError"
      by simp
    ultimately have "\<And>acc. dict_comp f items acc = Inl KeyError"
      using Cons.IH by blast
    with Inr show ?thesis
      by (cases r) (auto split: prod.splits)
  qed
qed

lemma map_of_filter_key:
  "map_of (filter (\<lambda>(k, v). P k) xs) k = (if P k then map_of xs k else None)"
  by (induction xs) auto

section \<open>Normalization by schema\<close>

lemma schema_tag_cases:
  "schema_tag source = Some Coindesk \<longleftrightarrow> py_in ''coindesk'' source"
  "schema_tag source = Some Coingecko \<longleftrightarrow> \<not> py_in ''coindesk'' source \<and> py_in ''coingecko'' source"
  "schema_tag source = Some Blockchain \<longleftrightarrow>
     \<not> py_in ''coindesk'' source \<and> \<not> py_in ''coingecko'' source \<and> py_in ''blockchain'' source"
  "schema_tag source = Some Coinbase \<longleftrightarrow>
     \<not> py_in ''coindesk'' source \<and> \<not> py_in ''coingecko'' source \<and> \<not> py_in ''blockchain'' source
     \<and> py_in ''coinbase'' source"
  by (simp_all add: schema_tag_def)

lemma try_block_coindesk:
  "schema_tag source = Some Coindesk \<Longrightarrow>
   try_block data source =
     bind_err (py_get data ''bpi'' (JObj [])) (\<lambda>bpi.
     bind_err (py_items bpi) (\<lambda>items.
     bind_err (dict_comp (\<lambda>(curr, info).
                 bind_err (py_getitem info ''rate'') (\<lambda>rate. Inr (Some (curr, rate))))
               items []) (\<lambda>d. Inr (Some d))))"
  by (simp add: schema_tag_cases try_block_def)

lemma try_block_coingecko:
  "schema_tag source = Some Coingecko \<Longrightarrow>
   try_block data source =
     bind_err (py_get data ''bitcoin'' (JObj [])) (\<lambda>bitcoin.
     bind_err (py_items bitcoin) (\<lambda>items.
     bind_err (dict_comp (\<lambda>(curr, price). Inr (Some (py_upper curr, JStr (py_str price))))
               items []) (\<lambda>d. Inr (Some d))))"
  by (simp add: schema_tag_cases try_block_def)

lemma try_block_blockchain:
  "schema_tag source = Some Blockchain \<Longrightarrow>
   try_block data source =
     bind_err (py_items data) (\<lambda>items.
     bind_err (dict_comp (\<lambda>(curr, info).
                 bind_err (py_getitem info ''last'') (\<lambda>last. Inr (Some (curr, JStr (py_str last)))))
               items []) (\<lambda>d. Inr (Some d)))"
  by (simp add: schema_tag_cases try_block_def)

lemma try_block_coinbase:
  "schema_tag source = Some Coinbase \<Longrightarrow>
   try_block data source =
     bind_err (py_get data ''data'' (JObj [])) (\<lambda>inner.
     bind_err (py_get inner ''rates'' (JObj [])) (\<lambda>rates.
     bind_err (py_items rates) (\<lambda>items.
     bind_err (dict_comp (\<lambda>(curr, rate).
                 if curr \<noteq> ''BTC'' then Inr (Some (curr, JStr (py_str rate))) else Inr None)
               items []) (\<lambda>d. Inr (Some d)))))"
  by (simp add: schema_tag_cases try_block_def)

lemma parse_response_Inr: "try_block data source = Inr r \<Longrightarrow> parse_response data source = Inr r"
  by (simp add: parse_response_def)

lemma parse_response_caught:
  "try_block data source = Inl KeyError \<Longrightarrow> parse_response data source = Inr None"
  "try_block data source = Inl AttributeError \<Longrightarrow> parse_response data source = Inr None"
  by (simp_all add: parse_response_def)

lemma parse_response_TypeError:
  "try_block data source = Inl TypeError \<Longrightarrow> parse_response data source = Inl TypeError"
  by (simp add: parse_response_def)

lemma py_get_obj [simp]:
  "py_get (JObj d) key dflt = Inr (case dict_get d key of Some v \<Rightarrow> v | None \<Rightarrow> dflt)"
  by (simp add: py_get_def)

lemma py_items_obj [simp]: "py_items (JObj d) = Inr d"
  by (simp add: py_items_def)

lemma py_getitem_obj [simp]:
  "py_getitem (JObj d) key = (case dict_get d key of Some v \<Rightarrow> Inr v | None \<Rightarrow> Inl KeyError)"
  by (simp add: py_getitem_def)

lemma parse_coinbase_rates:
  assumes "schema_tag source = Some Coinbase"
    and "dict_get d ''data'' = Some (JObj inner)"
    and "dict_get inner ''rates'' = Some (JObj rates)"
    and "distinct (map fst rates)"
  shows "parse_response (JObj d) source =
           Inr (Some (map (\<lambda>(k, v). (k, JStr (py_str v))) (filter (\<lambda>(k, v). k \<noteq> ''BTC'') rates)))"
proof -
  have "dict_comp (\<lambda>(curr, rate).
           if curr \<noteq> ''BTC'' then Inr (Some (curr, JStr (py_str rate))) else Inr None) rates []
        = Inr ([] @ map (\<lambda>(k, v). (k, JStr (py_str v))) (filter (\<lambda>(k, v). k \<noteq> ''BTC'') rates))"
    using assms(4) by (intro dict_comp_filter_map) auto
  with assms(1-3) show ?thesis
    by (simp add: try_block_coinbase parse_response_Inr)
qed

text \<open>
  C4. For a coinbase-like source and a document whose \<open>data.rates\<close> is an object, the
  result is a mapping without the key BTC in which every other key of \<open>data.rates\<close>
  holds the \<open>str\<close> of its rate, and nothing else.
\<close>

theorem coinbase_excludes_btc:
  assumes "schema_tag source = Some Coinbase"
    and "dict_get d ''data'' = Some (JObj inner)"
    and "dict_get inner ''rates'' = Some (JObj rates)"
    and "distinct (map fst rates)"
  shows "\<exists>m. parse_response (JObj d) source = Inr (Some m)
           \<and> dict_get m ''BTC'' = None
           \<and> ''BTC'' \<notin> fst ` set m
           \<and> (\<forall>k. k \<noteq> ''BTC'' \<longrightarrow> dict_get m k = map_option (\<lambda>v. JStr (py_str v)) (dict_get rates k))"
proof -
  let ?m = "map (\<lambda>(k, v). (k, JStr (py_str v))) (filter (\<lambda>(k, v). k \<noteq> ''BTC'') rates)"
  have p: "parse_response (JObj d) source = Inr (Some ?m)"
    using assms by (rule parse_coinbase_rates)
  have look: "dict_get ?m k = (if k \<noteq> ''BTC'' then map_option (\<lambda>v. JStr (py_str v)) (dict_get rates k) else None)" for k
    by (simp add: dict_get_def map_of_map map_of_filter_key)
  have "''BTC'' \<notin> fst ` set ?m"
    by (auto simp: image_iff)
  with p look show ?thesis
    by (intro exI [of _ ?m]) simp
qed

lemma backup_tag_nth:
  "schema_tag (BACKUP_APIS ! 0) = Some Coindesk"
  "schema_tag (BACKUP_APIS ! 1) = Some Coingecko"
  "schema_tag (BACKUP_APIS ! 2) = Some Blockchain"
  "schema_tag (BACKUP_APIS ! 3) = Some Coinbase"
  by (simp_all add: schema_tag_def BACKUP_APIS_def)

theorem coinbase_excludes_btc_witness:
  "schema_tag (BACKUP_APIS ! 3) = Some Coinbase
   \<and> dict_get [(''data'', JObj [(''currency'', JStr ''BTC''),
                 (''rates'', JObj [(''BTC'', JStr ''1''), (''USD'', JStr ''67000.5''), (''EUR'', JInt 61000)])])]
        ''data''
      = Some (JObj [(''currency'', JStr ''BTC''),
                 (''rates'', JObj [(''BTC'', JStr ''1''), (''USD'', JStr ''67000.5''), (''EUR'', JInt 61000)])])
   \<and> dict_get [(''currency'', JStr ''BTC''),
                 (''rates'', JObj [(''BTC'', JStr ''1''), (''USD'', JStr ''67000.5''), (''EUR'', JInt 61000)])]
        ''rates''
      = Some (JObj [(''BTC'', JStr ''1''), (''USD'', JStr ''67000.5''), (''EUR'', JInt 61000)])
   \<and> distinct (map fst [(''BTC'', JStr ''1''), (''USD'', JStr ''67000.5''), (''EUR'', JInt 61000)])
   \<and> (\<exists>m. parse_response
             (JObj [(''data'', JObj [(''currency'', JStr ''BTC''),
                 (''rates'', JObj [(''BTC'', JStr ''1''), (''USD'', JStr ''67000.5''), (''EUR'', JInt 61000)])])])
             (BACKUP_APIS ! 3) = Inr (Some m)
          \<and> dict_get m ''BTC'' = None
          \<and> dict_get m ''USD'' = Some (JStr ''67000.5'')
          \<and> dict_get m ''EUR'' = Some (JStr ''61000''))"
proof -
  let ?rates = "[(''BTC'', JStr ''1''), (''USD'', JStr ''67000.5''), (''EUR'', JInt 61000)]"
  let ?inner = "[(''currency'', JStr ''BTC''), (''rates'', JObj ?rates)]"
  let ?d = "[(''data'', JObj ?inner)]"
  have h1: "schema_tag (BACKUP_APIS ! 3) = Some Coinbase"
    by (rule backup_tag_nth)
  have h2: "dict_get ?d ''data'' = Some (JObj ?inner)"
    by (simp add: dict_get_def)
  have h3: "dict_get ?inner ''rates'' = Some (JObj ?rates)"
    by (simp add: dict_get_def)
  have h4: "distinct (map fst ?rates)"
    by simp
  have s: "py_str (JInt 61000) = ''61000''" "py_str (JStr ''67000.5'') = ''67000.5''"
    by code_simp+
  from coinbase_excludes_btc [OF h1 h2 h3 h4] obtain m where
    m: "parse_response (JObj ?d) (BACKUP_APIS ! 3) = Inr (Some m)" "dict_get m ''BTC'' = None"
      "\<forall>k. k \<noteq> ''BTC'' \<longrightarrow> dict_get m k = map_option (\<lambda>v. JStr (py_str v)) (dict_get ?rates k)"
    by blast
  from m(3) have "dict_get m ''USD'' = map_option (\<lambda>v. JStr (py_str v)) (dict_get ?rates ''USD'')"
    by simp
  then have usd: "dict_get m ''USD'' = Some (JStr ''67000.5'')"
    by (simp add: dict_get_def s)
  from m(3) have "dict_get m ''EUR'' = map_option (\<lambda>v. JStr (py_str v)) (dict_get ?rates ''EUR'')"
    by simp
  then have eur: "dict_get m ''EUR'' = Some (JStr ''61000'')"
    by (simp add: dict_get_def s)
  from h1 h2 h3 h4 m(1,2) usd eur show ?thesis
    by blast
qed

text \<open>
  C7. A source in which none of the four schema substrings occurs has no parsing rule:
  \<open>parse_response\<close> returns \<open>None\<close> for every document, and raises nothing.
\<close>

theorem unknown_source_none:
  assumes "\<not> py_in ''coindesk'' source" and "\<not> py_in ''coingecko'' source"
    and "\<not> py_in ''blockchain'' source" and "\<not> py_in ''coinbase'' source"
  shows "parse_response data source = Inr None"
  using assms by (simp add: parse_response_def try_block_def)

theorem unknown_source_none_witness:
  "\<not> py_in ''coindesk'' ''https://example.org/btc''
   \<and> \<not> py_in ''coingecko'' ''https://example.org/btc''
   \<and> \<not> py_in ''blockchain'' ''https://example.org/btc''
   \<and> \<not> py_in ''coinbase'' ''https://example.org/btc''
   \<and> parse_response (JObj [(''USD'', JObj [(''last'', JInt 67000)])]) ''https://example.org/btc'' = Inr None"
proof -
  have h: "\<not> py_in ''coindesk'' ''https://example.org/btc''"
    "\<not> py_in ''coingecko'' ''https://example.org/btc''"
    "\<not> py_in ''blockchain'' ''https://example.org/btc''"
    "\<not> py_in ''coinbase'' ''https://example.org/btc''"
    by simp_all
  from unknown_source_none [OF h] h show ?thesis
    by blast
qed

section \<open>Schema mismatch\<close>

lemma parse_missing_bpi:
  "schema_tag source = Some Coindesk \<Longrightarrow> dict_get d ''bpi'' = None \<Longrightarrow>
     parse_response (JObj d) source = Inr (Some [])"
  by (simp add: try_block_coindesk parse_response_Inr)

lemma parse_missing_bitcoin:
  "schema_tag source = Some Coingecko \<Longrightarrow> dict_get d ''bitcoin'' = None \<Longrightarrow>
     parse_response (JObj d) source = Inr (Some [])"
  by (simp add: try_block_coingecko parse_response_Inr)

lemma parse_missing_data:
  "schema_tag source = Some Coinbase \<Longrightarrow> dict_get d ''data'' = None \<Longrightarrow>
     parse_response (JObj d) source = Inr (Some [])"
  by (simp add: try_block_coinbase parse_response_Inr dict_get_def)

lemma parse_missing_rates:
  "schema_tag source = Some Coinbase \<Longrightarrow> dict_get d ''data'' = Some (JObj inner) \<Longrightarrow>
     dict_get inner ''rates'' = None \<Longrightarrow> parse_response (JObj d) source = Inr (Some [])"
  by (simp add: try_block_coinbase parse_response_Inr)

lemma member_lookup_KeyError:
  assumes "\<forall>(k, v) \<in> set items. \<exists>obj. v = JObj obj"
    and "\<exists>(k, v) \<in> set items. \<exists>obj. v = JObj obj \<and> dict_get obj field = None"
  shows "dict_comp (\<lambda>(c, info). bind_err (py_getitem info field) (\<lambda>x. Inr (Some (c, g x))))
           items [] = Inl KeyError"
proof -
  let ?f = "\<lambda>(c, info). bind_err (py_getitem info field) (\<lambda>x. Inr (Some (c, g x)))"
  have obj: "?f (k, JObj obj) =
      (case dict_get obj field of Some x \<Rightarrow> Inr (Some (k, g x)) | None \<Rightarrow> Inl KeyError)" for k obj
    by (simp split: option.splits)
  have one: "(\<exists>r. ?f item = Inr r) \<or> ?f item = Inl KeyError" if "item \<in> set items" for item
  proof -
    obtain k v where item: "item = (k, v)"
      by (cases item)
    with that assms(1) obtain obj where "v = JObj obj"
      by blast
    with item have "?f item =
        (case dict_get obj field of Some x \<Rightarrow> Inr (Some (k, g x)) | None \<Rightarrow> Inl KeyError)"
      by (simp only: obj)
    then show ?thesis
      by (cases "dict_get obj field") simp_all
  qed
  from assms(2) obtain k obj where "(k, JObj obj) \<in> set items" "dict_get obj field = None"
    by blast
  then have two: "\<exists>item \<in> set items. ?f item = Inl KeyError"
    by (intro bexI [of _ "(k, JObj obj)"]) (simp_all only: obj option.case)
  from one two show ?thesis
    by (intro dict_comp_KeyError) blast+
qed

lemma parse_member_without_last:
  assumes "schema_tag source = Some Blockchain"
    and "\<forall>(k, v) \<in> set d. \<exists>obj. v = JObj obj"
    and "\<exists>(k, v) \<in> set d. \<exists>obj. v = JObj obj \<and> dict_get obj ''last'' = None"
  shows "parse_response (JObj d) source = Inr None"
proof -
  have "try_block (JObj d) source = Inl KeyError"
    using assms(1) member_lookup_KeyError [OF assms(2,3), of "\<lambda>x. JStr (py_str x)"]
    by (simp add: try_block_blockchain)
  then show ?thesis
    by (rule parse_response_caught)
qed

lemma parse_member_without_rate:
  assumes "schema_tag source = Some Coindesk"
    and "dict_get d ''bpi'' = Some (JObj bpi)"
    and "\<forall>(k, v) \<in> set bpi. \<exists>obj. v = JObj obj"
    and "\<exists>(k, v) \<in> set bpi. \<exists>obj. v = JObj obj \<and> dict_get obj ''rate'' = None"
  shows "parse_response (JObj d) source = Inr None"
proof -
  have "try_block (JObj d) source = Inl KeyError"
    using assms(1,2) member_lookup_KeyError [OF assms(3,4), of "\<lambda>x. x"]
    by (simp add: try_block_coindesk)
  then show ?thesis
    by (rule parse_response_caught)
qed

text \<open>
  C3, as amended. When the expected field is missing the result is never a non-empty
  mapping, but it is not always \<open>None\<close>: an object without \<open>bpi\<close> (coindesk), without
  \<open>bitcoin\<close> (coingecko), without \<open>data\<close> or with a \<open>data\<close> object without \<open>rates\<close>
  (coinbase) gives the empty mapping, since \<open>get\<close> supplies an empty dict; a
  blockchain document whose members are objects, one of them without \<open>last\<close>, and a
  coindesk document whose \<open>bpi\<close> members are objects, one of them without \<open>rate\<close>,
  give \<open>None\<close>.
\<close>

theorem schema_mismatch_result:
  "(schema_tag source = Some Coindesk \<and> dict_get d ''bpi'' = None
      \<longrightarrow> parse_response (JObj d) source = Inr (Some []))
   \<and> (schema_tag source = Some Coingecko \<and> dict_get d ''bitcoin'' = None
      \<longrightarrow> parse_response (JObj d) source = Inr (Some []))
   \<and> (schema_tag source = Some Coinbase \<and> dict_get d ''data'' = None
      \<longrightarrow> parse_response (JObj d) source = Inr (Some []))
   \<and> (schema_tag source = Some Coinbase \<and> dict_get d ''data'' = Some (JObj inner)
        \<and> dict_get inner ''rates'' = None
      \<longrightarrow> parse_response (JObj d) source = Inr (Some []))
   \<and> (schema_tag source = Some Blockchain \<and> (\<forall>(k, v) \<in> set d. \<exists>obj. v = JObj obj)
        \<and> (\<exists>(k, v) \<in> set d. \<exists>obj. v = JObj obj \<and> dict_get obj ''last'' = None)
      \<longrightarrow> parse_response (JObj d) source = Inr None)
   \<and> (schema_tag source = Some Coindesk \<and> dict_get d ''bpi'' = Some (JObj bpi)
        \<and> (\<forall>(k, v) \<in> set bpi. \<exists>obj. v = JObj obj)
        \<and> (\<exists>(k, v) \<in> set bpi. \<exists>obj. v = JObj obj \<and> dict_get obj ''rate'' = None)
      \<longrightarrow> parse_response (JObj d) source = Inr None)"
  using parse_missing_bpi [of source d] parse_missing_bitcoin [of source d]
    parse_missing_data [of source d] parse_missing_rates [of source d inner]
    parse_member_without_last [of source d] parse_member_without_rate [of source d bpi]
  by blast

theorem missing_bpi_counterexample:
  "schema_tag (BACKUP_APIS ! 0) = Some Coindesk
   \<and> dict_get [(''disclaimer'', JStr ''none'')] ''bpi'' = None
   \<and> parse_response (JObj [(''disclaimer'', JStr ''none'')]) (BACKUP_APIS ! 0) = Inr (Some [])
   \<and> parse_response (JObj [(''disclaimer'', JStr ''none'')]) (BACKUP_APIS ! 0) \<noteq> Inr None"
proof -
  have t: "schema_tag (BACKUP_APIS ! 0) = Some Coindesk"
    by (rule backup_tag_nth)
  have g: "dict_get [(''disclaimer'', JStr ''none'')] ''bpi'' = None"
    by (simp add: dict_get_def)
  from parse_missing_bpi [OF t g] t g show ?thesis
    by simp
qed

theorem schema_mismatch_result_witness:
  "parse_response (JObj [(''time'', JStr ''now'')]) (BACKUP_APIS ! 0) = Inr (Some [])
   \<and> parse_response (JObj [(''time'', JStr ''now'')]) (BACKUP_APIS ! 1) = Inr (Some [])
   \<and> parse_response (JObj [(''time'', JStr ''now'')]) (BACKUP_APIS ! 3) = Inr (Some [])
   \<and> parse_response (JObj [(''data'', JObj [(''currency'', JStr ''BTC'')])]) (BACKUP_APIS ! 3)
        = Inr (Some [])
   \<and> parse_response (JObj [(''USD'', JObj [(''last'', JInt 67000)]), (''EUR'', JObj [(''buy'', JInt 61000)])])
        (BACKUP_APIS ! 2) = Inr None
   \<and> parse_response (JObj [(''bpi'', JObj [(''USD'', JObj [(''code'', JStr ''USD'')])])])
        (BACKUP_APIS ! 0) = Inr None"
proof -
  let ?t = "[(''time'', JStr ''now'')]"
  have a: "parse_response (JObj ?t) (BACKUP_APIS ! 0) = Inr (Some [])"
    using schema_mismatch_result [of "BACKUP_APIS ! 0" ?t] backup_tag_nth
    by (simp add: dict_get_def)
  have b: "parse_response (JObj ?t) (BACKUP_APIS ! 1) = Inr (Some [])"
    using schema_mismatch_result [of "BACKUP_APIS ! 1" ?t] backup_tag_nth
    by (simp add: dict_get_def)
  have c: "parse_response (JObj ?t) (BACKUP_APIS ! 3) = Inr (Some [])"
    using schema_mismatch_result [of "BACKUP_APIS ! 3" ?t] backup_tag_nth
    by (simp add: dict_get_def)
  let ?i = "[(''currency'', JStr ''BTC'')]"
  have d: "parse_response (JObj [(''data'', JObj ?i)]) (BACKUP_APIS ! 3) = Inr (Some [])"
    using schema_mismatch_result [of "BACKUP_APIS ! 3" "[(''data'', JObj ?i)]" ?i] backup_tag_nth
    by (simp add: dict_get_def)
  let ?m = "[(''USD'', JObj [(''last'', JInt 67000)]), (''EUR'', JObj [(''buy'', JInt 61000)])]"
  have e1: "\<forall>(k, v) \<in> set ?m. \<exists>obj. v = JObj obj"
    by simp
  have e2: "\<exists>(k, v) \<in> set ?m. \<exists>obj. v = JObj obj \<and> dict_get obj ''last'' = None"
    by (simp add: dict_get_def)
  have e: "parse_response (JObj ?m) (BACKUP_APIS ! 2) = Inr None"
    using schema_mismatch_result [of "BACKUP_APIS ! 2" ?m] backup_tag_nth(3) e1 e2
    by blast
  let ?b = "[(''USD'', JObj [(''code'', JStr ''USD'')])]"
  have f0: "dict_get [(''bpi'', JObj ?b)] ''bpi'' = Some (JObj ?b)"
    by (simp add: dict_get_def)
  have f1: "\<forall>(k, v) \<in> set ?b. \<exists>obj. v = JObj obj"
    by simp
  have f2: "\<exists>(k, v) \<in> set ?b. \<exists>obj. v = JObj obj \<and> dict_get obj ''rate'' = None"
    by (simp add: dict_get_def)
  have f: "parse_response (JObj [(''bpi'', JObj ?b)]) (BACKUP_APIS ! 0) = Inr None"
    using schema_mismatch_result [of "BACKUP_APIS ! 0" "[(''bpi'', JObj ?b)]" _ ?b] backup_tag_nth(1) f0 f1 f2
    by blast
  from a b c d e f show ?thesis
    by blast
qed

section \<open>Well-formed fixtures\<close>

lemma upper_char_letter:
  "c \<in> set ''ABCDEFGHIJKLMNOPQRSTUVWXYZabcdefghijklmnopqrstuvwxyz'' \<Longrightarrow>
     upper_char c \<in> set ''ABCDEFGHIJKLMNOPQRSTUVWXYZ''"
  by (auto simp: upper_char_def)

lemma upper_currency_code: "currency_code k \<Longrightarrow> uppercase_code (py_upper k)"
  unfolding currency_code_def uppercase_code_def py_upper_def list_all_iff
  using upper_char_letter by auto

lemma has_fieldE:
  assumes "has_field key P v"
  obtains d x where "v = JObj d" "dict_get d key = Some x" "P x"
  using assms by (cases v) (auto split: option.splits)

lemma currency_tableE:
  assumes "currency_table K P v"
  obtains d where "v = JObj d" "d \<noteq> []" "distinct (map fst d)" "\<forall>(k, x) \<in> set d. K k \<and> P x"
  using assms by (cases v) (auto simp: currency_table_def list_all_iff)

lemma dict_comp_fixture:
  assumes "items \<noteq> []"
    and "\<forall>item \<in> set items. \<exists>k v. f item = Inr (Some (k, v)) \<and> Q k v"
  shows "\<exists>m. dict_comp f items [] = Inr m \<and> m \<noteq> [] \<and> (\<forall>(k, v) \<in> set m. Q k v)"
proof -
  have 1: "\<forall>item \<in> set items. f item = Inr None \<or> (\<exists>k v. f item = Inr (Some (k, v)) \<and> Q k v)"
    using assms(2) by blast
  have 2: "\<forall>(k, v) \<in> set []. Q k v"
    by simp
  from assms(1) obtain item where "item \<in> set items"
    by (cases items) auto
  moreover from this assms(2) obtain k v where "f item = Inr (Some (k, v))"
    by blast
  ultimately have 3: "\<exists>item \<in> set items. f item \<noteq> Inr None"
    by (intro bexI [of _ item]) simp_all
  from dict_comp_entries [OF 1 2] 3 show ?thesis
    by blast
qed

lemma parse_coindesk_fixture:
  assumes "schema_tag source = Some Coindesk" and "well_formed Coindesk data"
  shows "\<exists>m. parse_response data source = Inr (Some m) \<and> m \<noteq> []
           \<and> (\<forall>(k, v) \<in> set m. uppercase_code k \<and> is_string v)"
proof -
  from assms(2) obtain d bpi where data: "data = JObj d" "dict_get d ''bpi'' = Some bpi"
    and tab: "currency_table uppercase_code (has_field ''rate'' is_string) bpi"
    by (auto elim: has_fieldE)
  from tab obtain items where bpi: "bpi = JObj items" "items \<noteq> []"
    and all: "\<forall>(k, x) \<in> set items. uppercase_code k \<and> has_field ''rate'' is_string x"
    by (auto elim: currency_tableE)
  let ?f = "\<lambda>(c, info). bind_err (py_getitem info ''rate'') (\<lambda>rate. Inr (Some (c, rate)))"
  have "\<exists>k v. ?f item = Inr (Some (k, v)) \<and> uppercase_code k \<and> is_string v"
    if "item \<in> set items" for item
  proof -
    obtain k x where item: "item = (k, x)"
      by (cases item)
    with that all have "uppercase_code k" "has_field ''rate'' is_string x"
      by auto
    then show ?thesis
      by (auto simp: item elim!: has_fieldE)
  qed
  then have "\<forall>item \<in> set items. \<exists>k v. ?f item = Inr (Some (k, v)) \<and> uppercase_code k \<and> is_string v"
    by blast
  from dict_comp_fixture [OF bpi(2) this] obtain m where
    "dict_comp ?f items [] = Inr m" "m \<noteq> []" "\<forall>(k, v) \<in> set m. uppercase_code k \<and> is_string v"
    by blast
  with assms(1) data bpi(1) show ?thesis
    by (simp add: try_block_coindesk parse_response_Inr)
qed

lemma parse_coingecko_fixture:
  assumes "schema_tag source = Some Coingecko" and "well_formed Coingecko data"
  shows "\<exists>m. parse_response data source = Inr (Some m) \<and> m \<noteq> []
           \<and> (\<forall>(k, v) \<in> set m. uppercase_code k \<and> is_string v)"
proof -
  from assms(2) obtain d b where data: "data = JObj d" "dict_get d ''bitcoin'' = Some b"
    and tab: "currency_table currency_code is_number b"
    by (auto elim: has_fieldE)
  from tab obtain items where b: "b = JObj items" "items \<noteq> []"
    and all: "\<forall>(k, x) \<in> set items. currency_code k \<and> is_number x"
    by (auto elim: currency_tableE)
  let ?f = "\<lambda>(c, price). Inr (Some (py_upper c, JStr (py_str price))) :: py_error + (string \<times> json) option"
  have "\<forall>item \<in> set items. \<exists>k v. ?f item = Inr (Some (k, v)) \<and> uppercase_code k \<and> is_string v"
    using all by (auto simp: upper_currency_code)
  from dict_comp_fixture [OF b(2) this] obtain m where
    "dict_comp ?f items [] = Inr m" "m \<noteq> []" "\<forall>(k, v) \<in> set m. uppercase_code k \<and> is_string v"
    by blast
  with assms(1) data b(1) show ?thesis
    by (simp add: try_block_coingecko parse_response_Inr)
qed

lemma parse_blockchain_fixture:
  assumes "schema_tag source = Some Blockchain" and "well_formed Blockchain data"
  shows "\<exists>m. parse_response data source = Inr (Some m) \<and> m \<noteq> []
           \<and> (\<forall>(k, v) \<in> set m. uppercase_code k \<and> is_string v)"
proof -
  from assms(2) obtain items where data: "data = JObj items" "items \<noteq> []"
    and all: "\<forall>(k, x) \<in> set items. uppercase_code k \<and> has_field ''last'' is_number x"
    by (auto elim: currency_tableE)
  let ?f = "\<lambda>(c, info). bind_err (py_getitem info ''last'') (\<lambda>last. Inr (Some (c, JStr (py_str last))))"
  have "\<exists>k v. ?f item = Inr (Some (k, v)) \<and> uppercase_code k \<and> is_string v"
    if "item \<in> set items" for item
  proof -
    obtain k x where item: "item = (k, x)"
      by (cases item)
    with that all have "uppercase_code k" "has_field ''last'' is_number x"
      by auto
    then show ?thesis
      by (auto simp: item elim!: has_fieldE)
  qed
  then have "\<forall>item \<in> set items. \<exists>k v. ?f item = Inr (Some (k, v)) \<and> uppercase_code k \<and> is_string v"
    by blast
  from dict_comp_fixture [OF data(2) this] obtain m where
    "dict_comp ?f items [] = Inr m" "m \<noteq> []" "\<forall>(k, v) \<in> set m. uppercase_code k \<and> is_string v"
    by blast
  with assms(1) data(1) show ?thesis
    by (simp add: try_block_blockchain parse_response_Inr)
qed

lemma parse_coinbase_fixture:
  assumes "schema_tag source = Some Coinbase" and "well_formed Coinbase data"
    and "\<exists>k \<in> set (rate_codes data). k \<noteq> ''BTC''"
  shows "\<exists>m. parse_response data source = Inr (Some m) \<and> m \<noteq> []
           \<and> (\<forall>(k, v) \<in> set m. uppercase_code k \<and> is_string v)"
proof -
  from assms(2) obtain d inner where data: "data = JObj d" "dict_get d ''data'' = Some inner"
    and r: "has_field ''rates'' (currency_table uppercase_code is_string) inner"
    by (auto elim: has_fieldE)
  from r obtain i rates where inner: "inner = JObj i" "dict_get i ''rates'' = Some rates"
    and tab: "currency_table uppercase_code is_string rates"
    by (auto elim: has_fieldE)
  from tab obtain items where rates: "rates = JObj items"
    and all: "\<forall>(k, x) \<in> set items. uppercase_code k \<and> is_string x"
    by (auto elim: currency_tableE)
  have codes: "rate_codes data = map fst items"
    by (simp add: rate_codes_def data inner rates)
  let ?f = "\<lambda>(c, rate). if c \<noteq> ''BTC'' then Inr (Some (c, JStr (py_str rate))) else Inr None
              :: py_error + (string \<times> json) option"
  have "?f item = Inr None
          \<or> (\<exists>k v. ?f item = Inr (Some (k, v)) \<and> uppercase_code k \<and> is_string v)"
    if "item \<in> set items" for item
  proof -
    obtain c x where item: "item = (c, x)"
      by (cases item)
    with that all have "uppercase_code c"
      by auto
    then show ?thesis
      by (cases "c = ''BTC''") (simp_all add: item)
  qed
  then have 1: "\<forall>item \<in> set items. ?f item = Inr None
             \<or> (\<exists>k v. ?f item = Inr (Some (k, v)) \<and> uppercase_code k \<and> is_string v)"
    by blast
  have 2: "\<forall>(k, v) \<in> set []. uppercase_code k \<and> is_string v"
    by simp
  from assms(3) codes obtain k x where "(k, x) \<in> set items" "k \<noteq> ''BTC''"
    by auto
  then have 3: "\<exists>item \<in> set items. ?f item \<noteq> Inr None"
    by (intro bexI [of _ "(k, x)"]) simp_all
  from dict_comp_entries [OF 1 2] 3 obtain m where
    "dict_comp ?f items [] = Inr m" "m \<noteq> []" "\<forall>(k, v) \<in> set m. uppercase_code k \<and> is_string v"
    by blast
  with assms(1) data inner rates show ?thesis
    by (simp add: try_block_coinbase parse_response_Inr)
qed

text \<open>
  C5, as amended. For each of the four schema tags, a well-formed fixture of the schema
  is parsed into a non-empty mapping whose keys are upper-case currency codes and whose
  values are strings, provided that, for a coinbase-like source, \<open>data.rates\<close> lists a
  currency other than BTC.
\<close>

theorem fixture_normalizes:
  assumes "schema_tag source = Some tag" and "well_formed tag data"
    and "tag = Coinbase \<longrightarrow> (\<exists>k \<in> set (rate_codes data). k \<noteq> ''BTC'')"
  shows "\<exists>m. parse_response data source = Inr (Some m) \<and> m \<noteq> []
           \<and> (\<forall>(k, v) \<in> set m. uppercase_code k \<and> is_string v)"
proof (cases tag)
  case Coindesk
  with assms show ?thesis by (simp add: parse_coindesk_fixture)
next
  case Coingecko
  with assms show ?thesis by (simp add: parse_coingecko_fixture)
next
  case Blockchain
  with assms show ?thesis by (simp add: parse_blockchain_fixture)
next
  case Coinbase
  with assms show ?thesis by (simp add: parse_coinbase_fixture)
qed

theorem btc_only_fixture_counterexample:
  "schema_tag (BACKUP_APIS ! 3) = Some Coinbase
   \<and> well_formed Coinbase (JObj [(''data'', JObj [(''rates'', JObj [(''BTC'', JStr ''1.0'')])])])
   \<and> parse_response (JObj [(''data'', JObj [(''rates'', JObj [(''BTC'', JStr ''1.0'')])])])
        (BACKUP_APIS ! 3) = Inr (Some [])"
proof -
  have t: "schema_tag (BACKUP_APIS ! 3) = Some Coinbase"
    by (rule backup_tag_nth)
  have w: "well_formed Coinbase (JObj [(''data'', JObj [(''rates'', JObj [(''BTC'', JStr ''1.0'')])])])"
    by (simp add: dict_get_def currency_table_def uppercase_code_def)
  have "parse_response (JObj [(''data'', JObj [(''rates'', JObj [(''BTC'', JStr ''1.0'')])])])
          (BACKUP_APIS ! 3) = Inr (Some [])"
    using parse_coinbase_rates [OF t, of "[(''data'', JObj [(''rates'', JObj [(''BTC'', JStr ''1.0'')])])]"
        "[(''rates'', JObj [(''BTC'', JStr ''1.0'')])]" "[(''BTC'', JStr ''1.0'')]"]
    by (simp add: dict_get_def)
  with t w show ?thesis
    by blast
qed

theorem fixture_normalizes_witness:
  "well_formed Coindesk (JObj [(''bpi'', JObj [(''USD'', JObj [(''code'', JStr ''USD''), (''rate'', JStr ''57,014.5'')])])])
   \<and> (\<exists>m. parse_response
             (JObj [(''bpi'', JObj [(''USD'', JObj [(''code'', JStr ''USD''), (''rate'', JStr ''57,014.5'')])])])
             (BACKUP_APIS ! 0) = Inr (Some m) \<and> m \<noteq> [])
   \<and> well_formed Coingecko (JObj [(''bitcoin'', JObj [(''usd'', JInt 57014)])])
   \<and> (\<exists>m. parse_response (JObj [(''bitcoin'', JObj [(''usd'', JInt 57014)])]) (BACKUP_APIS ! 1)
             = Inr (Some m) \<and> m \<noteq> [])
   \<and> well_formed Blockchain (JObj [(''USD'', JObj [(''last'', JInt 57014), (''symbol'', JStr ''$'')])])
   \<and> (\<exists>m. parse_response (JObj [(''USD'', JObj [(''last'', JInt 57014), (''symbol'', JStr ''$'')])])
             (BACKUP_APIS ! 2) = Inr (Some m) \<and> m \<noteq> [])
   \<and> well_formed Coinbase (JObj [(''data'', JObj [(''rates'', JObj [(''BTC'', JStr ''1''), (''USD'', JStr ''57014.5'')])])])
   \<and> (\<exists>m. parse_response
             (JObj [(''data'', JObj [(''rates'', JObj [(''BTC'', JStr ''1''), (''USD'', JStr ''57014.5'')])])])
             (BACKUP_APIS ! 3) = Inr (Some m) \<and> m \<noteq> [])"
proof -
  let ?a = "JObj [(''bpi'', JObj [(''USD'', JObj [(''code'', JStr ''USD''), (''rate'', JStr ''57,014.5'')])])]"
  let ?b = "JObj [(''bitcoin'', JObj [(''usd'', JInt 57014)])]"
  let ?c = "JObj [(''USD'', JObj [(''last'', JInt 57014), (''symbol'', JStr ''$'')])]"
  let ?d = "JObj [(''data'', JObj [(''rates'', JObj [(''BTC'', JStr ''1''), (''USD'', JStr ''57014.5'')])])]"
  have wa: "well_formed Coindesk ?a"
    by (simp add: dict_get_def currency_table_def uppercase_code_def)
  have wb: "well_formed Coingecko ?b"
    by (simp add: dict_get_def currency_table_def currency_code_def)
  have wc: "well_formed Blockchain ?c"
    by (simp add: dict_get_def currency_table_def uppercase_code_def)
  have wd: "well_formed Coinbase ?d"
    by (simp add: dict_get_def currency_table_def uppercase_code_def)
  have rd: "Coinbase = Coinbase \<longrightarrow> (\<exists>k \<in> set (rate_codes ?d). k \<noteq> ''BTC'')"
    by (simp add: rate_codes_def dict_get_def)
  have pa: "\<exists>m. parse_response ?a (BACKUP_APIS ! 0) = Inr (Some m) \<and> m \<noteq> []"
    using fixture_normalizes [OF backup_tag_nth(1) wa] by auto
  have pb: "\<exists>m. parse_response ?b (BACKUP_APIS ! 1) = Inr (Some m) \<and> m \<noteq> []"
    using fixture_normalizes [OF backup_tag_nth(2) wb] by auto
  have pc: "\<exists>m. parse_response ?c (BACKUP_APIS ! 2) = Inr (Some m) \<and> m \<noteq> []"
    using fixture_normalizes [OF backup_tag_nth(3) wc] by auto
  have pd: "\<exists>m. parse_response ?d (BACKUP_APIS ! 3) = Inr (Some m) \<and> m \<noteq> []"
    using fixture_normalizes [OF backup_tag_nth(4) wd rd] by auto
  from wa wb wc wd pa pb pc pd show ?thesis
    by blast
qed

section \<open>The fallback loop\<close>

lemma falsy_data_parse:
  "\<not> py_truthy data \<Longrightarrow> parse_response data source = Inr None \<or> parse_response data source = Inr (Some [])"
proof (cases "schema_tag source")
  case None
  then show ?thesis by (simp add: parse_untagged)
next
  case (Some tag)
  assume f: "\<not> py_truthy data"
  have obj: "parse_response (JObj []) source = Inr (Some [])"
    using Some
    by (cases tag)
       (simp_all add: try_block_coindesk try_block_coingecko try_block_blockchain try_block_coinbase
          parse_response_Inr dict_get_def)
  have other: "parse_response data source = Inr None" if "\<And>d. data \<noteq> JObj d"
  proof -
    from that have "py_get data key dflt = Inl AttributeError" "py_items data = Inl AttributeError"
      for key dflt
      by (cases data; simp add: py_get_def py_items_def)+
    with Some have "try_block data source = Inl AttributeError"
      by (cases tag)
         (simp_all add: try_block_coindesk try_block_coingecko try_block_blockchain try_block_coinbase)
    then show ?thesis
      by (rule parse_response_caught)
  qed
  show ?thesis
  proof (cases "\<exists>d. data = JObj d")
    case True
    then obtain d where "data = JObj d"
      by blast
    with f have "data = JObj []"
      by simp
    with obj show ?thesis
      by simp
  next
    case False
    then have "\<And>d. data \<noteq> JObj d"
      by blast
    from other [OF this] show ?thesis
      by simp
  qed
qed

end
